theory Spec2Isabelle
  imports Complex_Main "HOL-Library.Word" "HOL-Library.Signed_Division"
begin

section \<open>hgt2png: an HGT elevation raster to 16-bit grayscale PNG tiles\<close>

text \<open>
  A shallow embedding of \<^verbatim>\<open>main\<close> of \<^verbatim>\<open>hgt2png.cpp\<close> (the version with
  subdivisions, lines 67 to 382). The byte buffer \<^verbatim>\<open>raster\<close> is a list of bytes, a
  sample read through \<^verbatim>\<open>std::int16_t*\<close> is a 16-bit word read with \<open>sint\<close>, a sample
  written through \<^verbatim>\<open>std::uint16_t*\<close> is a 16-bit word read with \<open>uint\<close>. The C++
  \<^verbatim>\<open>int\<close> variables (\<^verbatim>\<open>width\<close>, \<^verbatim>\<open>height\<close>, \<^verbatim>\<open>rows\<close>, \<^verbatim>\<open>cols\<close>, the offsets,
  \<^verbatim>\<open>minimum\<close>, \<^verbatim>\<open>maximum\<close>) are \<open>int\<close>: the program is run on rasters of a few
  thousand samples a side, where no \<^verbatim>\<open>int\<close> expression of the source overflows, the
  \<^verbatim>\<open>int\<close> counters of its loops included (a raster below \<open>2^31\<close> bytes).
  Every early \<^verbatim>\<open>return 1\<close> and every exception is a value of the type \<open>error\<close>, and
  so is a read past the end of the raster.
\<close>

type_synonym byte = "8 word"
type_synonym int16 = "16 word"
type_synonym uint16 = "16 word"

datatype error =
    CouldNotOpen  \<comment> \<open>line 114: \<^verbatim>\<open>fopen\<close> of the source fails\<close>
  | SubdivisionBelowOne  \<comment> \<open>line 135: "Both row and column must be greater than or equal to 1"\<close>
  | WidthNotDivisible int int  \<comment> \<open>line 140: printed with \<^verbatim>\<open>width\<close> and \<^verbatim>\<open>cols\<close>\<close>
  | HeightNotDivisible int int  \<comment> \<open>line 145: printed with \<^verbatim>\<open>height\<close> and \<^verbatim>\<open>rows\<close>\<close>
  | SizeMismatch int int  \<comment> \<open>line 157: actual and expected size in bytes\<close>
  | EraseOutOfRange  \<comment> \<open>line 170: \<^verbatim>\<open>std::string::erase\<close> at \<^verbatim>\<open>npos\<close> throws\<close>
  | InvalidHemisphere char string  \<comment> \<open>line 178: printed with the character and the file name\<close>
  | ReadFailed  \<comment> \<open>line 192: \<^verbatim>\<open>fread\<close> does not return 1\<close>
  | VectorLengthError  \<comment> \<open>line 279: a vector of negative size\<close>
  | OutOfBoundsAccess  \<comment> \<open>\<^verbatim>\<open>raster[i]\<close> past the end of the vector: undefined\<close>

subsection \<open>Byte order (lines 200 to 209 and 258 to 267)\<close>

text \<open>
  \<^verbatim>\<open>for (auto i = 0; i < data_size; i += sizeof(std::int16_t))
  { swp = raster[i]; raster[i] = raster[i+1]; raster[i+1] = swp; }\<close>
  The same loop stands twice in the source. \<^verbatim>\<open>raster[i+1]\<close> past the end of the vector
  is undefined in C++ and an error here.
\<close>

function swap_loop :: "nat \<Rightarrow> nat \<Rightarrow> byte list \<Rightarrow> error + byte list" where
  "swap_loop i data_size raster =
     (if i < data_size then
        (if i + 1 < length raster
         then swap_loop (i + 2) data_size
                ((raster[i := raster ! (i + 1)])[i + 1 := raster ! i])
         else Inl OutOfBoundsAccess)
      else Inr raster)"
  by pat_completeness auto
termination
  by (relation "measure (\<lambda>(i, data_size, raster). data_size - i)") auto

declare swap_loop.simps [simp del]

text \<open>\<^verbatim>\<open>if (is_little_endian()) { ... }\<close>: the host's byte order is a parameter.\<close>

definition swap_byte_order :: "bool \<Rightarrow> byte list \<Rightarrow> error + byte list" where
  "swap_byte_order is_little_endian raster =
     (if is_little_endian then swap_loop 0 (length raster) raster else Inr raster)"

text \<open>The two passes of \<^verbatim>\<open>main\<close> one after the other, with nothing in between.\<close>

definition swap_twice :: "bool \<Rightarrow> byte list \<Rightarrow> error + byte list" where
  "swap_twice is_little_endian raster =
     (case swap_byte_order is_little_endian raster of
        Inl e \<Rightarrow> Inl e
      | Inr swapped \<Rightarrow> swap_byte_order is_little_endian swapped)"

text \<open>
  The samples the later loops see through \<^verbatim>\<open>reinterpret_cast<std::int16_t*>\<close>: the
  byte pairs of the buffer read in the host's order, and back.
\<close>

fun load_samples :: "bool \<Rightarrow> byte list \<Rightarrow> int16 list" where
  "load_samples is_little_endian (b0 # b1 # bs) =
     (if is_little_endian then word_cat b1 b0 else word_cat b0 b1)
       # load_samples is_little_endian bs"
| "load_samples is_little_endian bs = []"

fun store_samples :: "bool \<Rightarrow> uint16 list \<Rightarrow> byte list" where
  "store_samples is_little_endian [] = []"
| "store_samples is_little_endian (u # us) =
     (if is_little_endian then [ucast u, ucast (drop_bit 8 u)]
      else [ucast (drop_bit 8 u), ucast u])
       @ store_samples is_little_endian us"

subsection \<open>The range scan (lines 215 to 234)\<close>

record elevation_range =
  minimum :: int
  maximum :: int
  invalid :: int

definition initial_range :: elevation_range where
  "initial_range = \<lparr>minimum = 32768, maximum = - 32768, invalid = 0\<rparr>"

text \<open>
  One turn of the loop:
  \<^verbatim>\<open>temp = static_cast<std::int32_t>(*svalue);
  if (temp < minimum) { if (temp != -32768) minimum = temp; else invalid++; }
  else if (temp > maximum) { maximum = temp; }\<close>
\<close>

definition scan_step :: "elevation_range \<Rightarrow> int16 \<Rightarrow> elevation_range" where
  "scan_step r svalue =
     (let temp = sint svalue in
      if temp < minimum r then
        (if temp \<noteq> - 32768 then r\<lparr>minimum := temp\<rparr>
         else r\<lparr>invalid := invalid r + 1\<rparr>)
      else if temp > maximum r then r\<lparr>maximum := temp\<rparr>
      else r)"

definition range_scan :: "int16 list \<Rightarrow> elevation_range" where
  "range_scan samples = foldl scan_step initial_range samples"

subsection \<open>The rescale (lines 241 to 252)\<close>

text \<open>
  \<^verbatim>\<open>*uvalue = *svalue == -32768 ? 0xFFFF
      : static_cast<std::uint16_t>((toscale - minf) * 65534.0 / deltaf);\<close>
  with \<^verbatim>\<open>minf\<close> the minimum and \<^verbatim>\<open>deltaf\<close> the maximum less the minimum, as doubles.

  The double arithmetic is exact here, so it is written on integers. The scan leaves
  \<^verbatim>\<open>minimum\<close> in \<open>[-32767, 32768]\<close> and \<^verbatim>\<open>maximum\<close> in \<open>[-32768, 32767]\<close>, and a sample
  is in \<open>[-32768, 32767]\<close>: the difference, the product with 65534 (below \<open>2^33\<close>) and
  \<^verbatim>\<open>deltaf\<close> are integers a double holds exactly. The quotient of two such integers, when
  it is not an integer, is farther than \<open>2^-17\<close> from every integer, and the division
  rounds it by less than \<open>2^-19\<close>: the rounded quotient truncates to the same integer
  as the exact one, which is the quotient rounded towards zero, \<open>sdiv\<close>.

  The conversion to \<^verbatim>\<open>std::uint16_t\<close> truncates towards zero. The C++ standard says
  what it gives when the truncated value is a value of the type, 0 to 65535, and a
  division by \<^verbatim>\<open>deltaf = 0\<close> gives none, but an infinity or a NaN.
\<close>

definition conversion_defined :: "int \<Rightarrow> int \<Rightarrow> int16 \<Rightarrow> bool" where
  "conversion_defined minf deltaf svalue =
     (sint svalue = - 32768 \<or>
      (deltaf \<noteq> 0 \<and> 0 \<le> ((sint svalue - minf) * 65534) sdiv deltaf
         \<and> ((sint svalue - minf) * 65534) sdiv deltaf \<le> 65535))"

text \<open>
  The source tests neither \<^verbatim>\<open>deltaf\<close> nor the quotient, and the loop goes on to the
  next sample whatever the value is. Where the standard says nothing, the value here is
  the one the x86-64 builds of the program store: the conversion is the instruction
  \<^verbatim>\<open>cvttsd2si\<close> to a 32-bit register, of which the low 16 bits are stored. A quotient
  outside 0 to 65535 is stored modulo \<open>2^16\<close>; a NaN, an infinity and a quotient outside
  32 bits give the pattern \<^verbatim>\<open>0x80000000\<close> and are stored as 0.
\<close>

definition rescale_sample :: "int \<Rightarrow> int \<Rightarrow> int16 \<Rightarrow> uint16" where
  "rescale_sample minf deltaf svalue =
     (if sint svalue = - 32768 then 0xFFFF
      else if deltaf = 0 then 0
      else
        (let q = ((sint svalue - minf) * 65534) sdiv deltaf
         in if - (2 ^ 31) \<le> q \<and> q < 2 ^ 31 then word_of_int q else 0))"

fun rescale_loop :: "int \<Rightarrow> int \<Rightarrow> int16 list \<Rightarrow> uint16 list" where
  "rescale_loop minf deltaf [] = []"
| "rescale_loop minf deltaf (svalue # rest) =
     rescale_sample minf deltaf svalue # rescale_loop minf deltaf rest"

text \<open>
  The scan and the rescale of \<^verbatim>\<open>main\<close>, on the samples of a raster:
  \<^verbatim>\<open>minf = static_cast<double>(minimum); deltaf = static_cast<double>(maximum) - minf\<close>.
\<close>

definition rescale_raster :: "int16 list \<Rightarrow> uint16 list" where
  "rescale_raster samples =
     (let r = range_scan samples;
          minf = minimum r;
          deltaf = maximum r - minf
      in rescale_loop minf deltaf samples)"

subsection \<open>Subdivisions (lines 133 to 149)\<close>

text \<open>
  \<^verbatim>\<open>if (cols < 1 || rows < 1) { ...; return 1; }
  if (cols > 1 && (width - 1) % cols) { ...; return 1; }
  if (rows > 1 && (height - 1) % rows) { ...; return 1; }\<close>
  The \<^verbatim>\<open>%\<close> and \<^verbatim>\<open>/\<close> of C++ truncate towards zero: \<open>smod\<close> and \<open>sdiv\<close>.
\<close>

definition verify_subdivisions :: "int \<Rightarrow> int \<Rightarrow> int \<Rightarrow> int \<Rightarrow> error option" where
  "verify_subdivisions width height rows cols =
     (if cols < 1 \<or> rows < 1 then Some SubdivisionBelowOne
      else if cols > 1 \<and> (width - 1) smod cols \<noteq> 0 then Some (WidthNotDivisible width cols)
      else if rows > 1 \<and> (height - 1) smod rows \<noteq> 0 then Some (HeightNotDivisible height rows)
      else None)"

definition subwidth :: "int \<Rightarrow> int \<Rightarrow> int" where
  "subwidth width cols = (width sdiv cols) + (if cols > 1 then 1 else 0)"

definition subheight :: "int \<Rightarrow> int \<Rightarrow> int" where
  "subheight height rows = (height sdiv rows) + (if rows > 1 then 1 else 0)"

subsection \<open>The tile loop (lines 282 to 372)\<close>

text \<open>
  A row pointer is \<^verbatim>\<open>raster.data() + row_abs * width * sizeof(std::uint16_t) +
  (col_offset - 1) * sizeof(std::uint16_t)\<close>. Each product is taken in
  \<^verbatim>\<open>std::size_t\<close>, 64 bits without sign, so that \<^verbatim>\<open>(col_offset - 1)\<close> at column offset
  0 is \<open>2^64 - 1\<close>. The pointer is kept as the number of bytes added to
  \<^verbatim>\<open>raster.data()\<close>, a 64-bit word: read with \<open>sint\<close> it is the index in the buffer of
  the byte the pointer addresses.
\<close>

definition row_pointer :: "int \<Rightarrow> int \<Rightarrow> int \<Rightarrow> 64 word" where
  "row_pointer width row_abs col_offset =
     word_of_int (row_abs * width) * 2 + word_of_int (col_offset - 1) * 2"

text \<open>
  \<^verbatim>\<open>for (auto row_abs = row_offset; row_abs < (row_offset + subheight); row_abs++)
      png_rows[row_abs - row_offset] = ...;\<close>
\<close>

function png_rows_loop :: "int \<Rightarrow> int \<Rightarrow> int \<Rightarrow> int \<Rightarrow> int \<Rightarrow> 64 word list" where
  "png_rows_loop width sub_height row_offset col_offset row_abs =
     (if row_abs < row_offset + sub_height
      then row_pointer width row_abs col_offset
             # png_rows_loop width sub_height row_offset col_offset (row_abs + 1)
      else [])"
  by pat_completeness auto
termination
  by (relation "measure (\<lambda>(width, sub_height, row_offset, col_offset, row_abs).
        nat (row_offset + sub_height - row_abs))") auto

declare png_rows_loop.simps [simp del]

text \<open>
  A tile as it is handed to the encoder and named on disk:
  \<^verbatim>\<open>base_name.row_offset.col_offset.png\<close>, \<^verbatim>\<open>subwidth\<close> by \<^verbatim>\<open>subheight\<close> pixels of 16
  bits, read from the row pointers.
\<close>

datatype tile = Tile (tile_row_offset: int) (tile_col_offset: int) (tile_png_rows: "64 word list")

text \<open>
  The byte of the buffer where the encoder reads pixel \<open>(r, c)\<close> of a tile: 2 bytes a
  pixel from the row's pointer.
\<close>

definition pixel_byte_index :: "tile \<Rightarrow> nat \<Rightarrow> nat \<Rightarrow> int" where
  "pixel_byte_index t r c = sint (tile_png_rows t ! r + word_of_int (2 * int c))"

text \<open>
  The inner loop: \<^verbatim>\<open>for (auto col_index = 0; col_index < cols; col_index++)
  { ...; col_offset += (subheight - 1); }\<close>
\<close>

function col_loop :: "int \<Rightarrow> int \<Rightarrow> int \<Rightarrow> int \<Rightarrow> int \<Rightarrow> int \<Rightarrow> tile list" where
  "col_loop width sub_height cols row_offset col_index col_offset =
     (if col_index < cols
      then Tile row_offset col_offset
             (png_rows_loop width sub_height row_offset col_offset row_offset)
             # col_loop width sub_height cols row_offset (col_index + 1)
                 (col_offset + (sub_height - 1))
      else [])"
  by pat_completeness auto
termination
  by (relation "measure (\<lambda>(width, sub_height, cols, row_offset, col_index, col_offset).
        nat (cols - col_index))") auto

declare col_loop.simps [simp del]

text \<open>
  The outer loop: \<^verbatim>\<open>for (auto row_index = 0; row_index < rows; row_index++)
  { for (...) { ... } col_offset = 0; row_offset += (subwidth - 1); }\<close>
  \<^verbatim>\<open>col_offset\<close> is 0 when the inner loop starts: it is initialised to 0 and reset after
  every inner loop.
\<close>

function row_loop :: "int \<Rightarrow> int \<Rightarrow> int \<Rightarrow> int \<Rightarrow> int \<Rightarrow> int \<Rightarrow> int \<Rightarrow> tile list" where
  "row_loop width sub_width sub_height rows cols row_index row_offset =
     (if row_index < rows
      then col_loop width sub_height cols row_offset 0 0
             @ row_loop width sub_width sub_height rows cols (row_index + 1)
                 (row_offset + (sub_width - 1))
      else [])"
  by pat_completeness auto
termination
  by (relation "measure (\<lambda>(width, sub_width, sub_height, rows, cols, row_index, row_offset).
        nat (rows - row_index))") auto

declare row_loop.simps [simp del]

definition tile_loop :: "int \<Rightarrow> int \<Rightarrow> int \<Rightarrow> int \<Rightarrow> tile list" where
  "tile_loop width height rows cols =
     row_loop width (subwidth width cols) (subheight height rows) rows cols 0 0"

definition tile_offsets :: "int \<Rightarrow> int \<Rightarrow> int \<Rightarrow> int \<Rightarrow> (int \<times> int) list" where
  "tile_offsets width height rows cols =
     map (\<lambda>t. (tile_row_offset t, tile_col_offset t)) (tile_loop width height rows cols)"

subsection \<open>The file name (lines 164 to 183)\<close>

text \<open>
  \<^verbatim>\<open>std::sscanf(file_name, "%c%2d%c%3d.hgt", &hemi[0], &ll[0], &hemi[1], &ll[1])\<close>
  with \<^verbatim>\<open>ll\<close> initialised to \<open>-1\<close> and \<^verbatim>\<open>hemi\<close> to 0. \<^verbatim>\<open>%c\<close> reads one character,
  whatever it is; \<^verbatim>\<open>%2d\<close> skips white space and reads a decimal integer of at most 2
  characters, the sign counted; the conversions stop at the first that fails, and what
  they have not assigned keeps its initial value.
\<close>

definition isspace :: "char \<Rightarrow> bool" where
  "isspace c = (c = CHR '' '' \<or> c = CHR 0x09 \<or> c = CHR 0x0A \<or> c = CHR 0x0B
     \<or> c = CHR 0x0C \<or> c = CHR 0x0D)"

definition isdigit :: "char \<Rightarrow> bool" where
  "isdigit c = (48 \<le> (of_char c :: nat) \<and> (of_char c :: nat) \<le> 57)"

fun decimal :: "int \<Rightarrow> string \<Rightarrow> int" where
  "decimal acc [] = acc"
| "decimal acc (c # cs) = decimal (acc * 10 + (of_char c - 48)) cs"

definition scan_int :: "nat \<Rightarrow> string \<Rightarrow> (int \<times> string) option" where
  "scan_int field_width input =
     (let s = dropWhile isspace input in
      case s of
        [] \<Rightarrow> None
      | c # cs \<Rightarrow>
          if c = CHR ''-'' \<or> c = CHR ''+'' then
            (let ds = takeWhile isdigit (take (field_width - 1) cs) in
             if ds = [] then None
             else Some (if c = CHR ''-'' then - decimal 0 ds else decimal 0 ds,
                        drop (length ds) cs))
          else
            (let ds = takeWhile isdigit (take field_width s) in
             if ds = [] then None
             else Some (decimal 0 ds, drop (length ds) s)))"

record name_fields =
  hemi0 :: char
  ll0 :: int
  hemi1 :: char
  ll1 :: int

definition sscanf_name :: "string \<Rightarrow> name_fields" where
  "sscanf_name file_name =
     (let initial = \<lparr>hemi0 = CHR 0x00, ll0 = - 1, hemi1 = CHR 0x00, ll1 = - 1\<rparr> in
      case file_name of
        [] \<Rightarrow> initial
      | h0 # rest \<Rightarrow>
          (case scan_int 2 rest of
             None \<Rightarrow> initial\<lparr>hemi0 := h0\<rparr>
           | Some (lat, rest1) \<Rightarrow>
               (case rest1 of
                  [] \<Rightarrow> initial\<lparr>hemi0 := h0, ll0 := lat\<rparr>
                | h1 # rest2 \<Rightarrow>
                    (case scan_int 3 rest2 of
                       None \<Rightarrow> initial\<lparr>hemi0 := h0, ll0 := lat, hemi1 := h1\<rparr>
                     | Some (lon, rest3) \<Rightarrow>
                         initial\<lparr>hemi0 := h0, ll0 := lat, hemi1 := h1, ll1 := lon\<rparr>))))"

text \<open>
  \<^verbatim>\<open>last_slash = std::strrchr(argv[1], DIRECTORY_DELIM);
  file_name = last_slash ? last_slash + 1 : argv[1];\<close>
\<close>

definition file_name_of :: "string \<Rightarrow> string" where
  "file_name_of path = rev (takeWhile (\<lambda>c. c \<noteq> CHR ''/'') (rev path))"

text \<open>
  \<^verbatim>\<open>valid_hemi[2] = { hemi[0] == 'N' || hemi[0] == 'S', hemi[1] == 'W' || hemi[1] == 'E' }\<close>
\<close>

definition valid_hemi0 :: "name_fields \<Rightarrow> bool" where
  "valid_hemi0 f = (hemi0 f = CHR ''N'' \<or> hemi0 f = CHR ''S'')"

definition valid_hemi1 :: "name_fields \<Rightarrow> bool" where
  "valid_hemi1 f = (hemi1 f = CHR ''W'' \<or> hemi1 f = CHR ''E'')"

subsection \<open>The program (lines 67 to 382)\<close>

text \<open>
  What a run that returns 0 has printed and written: the bounds of line 181, the range
  of line 235, the buffer after the second byte swap, and one tile for each PNG file.
\<close>

record run_output =
  out_bounds :: name_fields
  out_range :: elevation_range
  out_raster :: "byte list"
  out_tiles :: "tile list"

text \<open>
  Lines 185 to 372, once every check on the arguments has passed: the read, the first
  byte swap, the scan, the rescale, the second byte swap and the tile loop. A read of 0
  bytes makes \<^verbatim>\<open>fread\<close> return 0, which line 190 takes for a failure. The encoder and
  the output files are outside the model: every PNG file is taken to be written.
\<close>

definition convert :: "bool \<Rightarrow> name_fields \<Rightarrow> byte list \<Rightarrow> int \<Rightarrow> int \<Rightarrow> int \<Rightarrow> int
    \<Rightarrow> error + run_output" where
  "convert is_little_endian parsed hgt width height rows cols =
     (if hgt = [] then Inl ReadFailed
      else
        (case swap_byte_order is_little_endian hgt of
           Inl e \<Rightarrow> Inl e
         | Inr native \<Rightarrow>
             (let samples = load_samples is_little_endian native;
                  scaled = rescale_raster samples
              in case swap_byte_order is_little_endian
                        (store_samples is_little_endian scaled) of
                   Inl e \<Rightarrow> Inl e
                 | Inr big_endian \<Rightarrow>
                     if subheight height rows < 0 then Inl VectorLengthError
                     else Inr \<lparr>out_bounds = parsed, out_range = range_scan samples,
                               out_raster = big_endian,
                               out_tiles = tile_loop width height rows cols\<rparr>)))"

text \<open>
  \<^verbatim>\<open>main\<close> from the parsed arguments: the host's byte order, \<^verbatim>\<open>argv[1]\<close>, the bytes of
  the file it names (\<open>None\<close> when it cannot be opened) and the four numbers. The checks
  stand in the order of the source: the file opens (line 112), the subdivisions (133
  to 147), the size (155), the last \<^verbatim>\<open>.\<close> of the name (170), the hemispheres (176).
\<close>

definition main :: "bool \<Rightarrow> string \<Rightarrow> byte list option \<Rightarrow> int \<Rightarrow> int \<Rightarrow> int \<Rightarrow> int
    \<Rightarrow> error + run_output" where
  "main is_little_endian path hgt_file width height rows cols =
     (case hgt_file of
        None \<Rightarrow> Inl CouldNotOpen
      | Some hgt \<Rightarrow>
          (case verify_subdivisions width height rows cols of
             Some e \<Rightarrow> Inl e
           | None \<Rightarrow>
               (let hgt_size = int (length hgt);
                    data_size = width * height * 2;
                    file_name = file_name_of path;
                    parsed = sscanf_name file_name
                in if hgt_size \<noteq> data_size then Inl (SizeMismatch hgt_size data_size)
                   else if CHR ''.'' \<notin> set file_name then Inl EraseOutOfRange
                   else if \<not> (valid_hemi0 parsed \<and> valid_hemi1 parsed)
                     then Inl (InvalidHemisphere
                            (if valid_hemi0 parsed then hemi1 parsed else hemi0 parsed)
                            file_name)
                   else convert is_little_endian parsed hgt width height rows cols)))"

subsection \<open>Definitions the statements compare the program with\<close>

text \<open>The buffer with every pair of adjacent bytes exchanged.\<close>

fun swap_pairs :: "'a list \<Rightarrow> 'a list" where
  "swap_pairs (a # b # xs) = b # a # swap_pairs xs"
| "swap_pairs xs = xs"

text \<open>
  The rescaled sample in the words of the specification, section 3:
  \<^verbatim>\<open>round((raw - minimum) * 65534 / (maximum - minimum))\<close>, rounded to the nearest
  integer.
\<close>

definition spec_rescaled :: "int \<Rightarrow> int \<Rightarrow> int \<Rightarrow> int" where
  "spec_rescaled lo hi raw =
     round (real_of_int ((raw - lo) * 65534) / real_of_int (hi - lo))"

text \<open>
  The byte of the buffer where the sample of a row and a column of the grid starts: the
  grid is row-major, \<^verbatim>\<open>width\<close> samples a row and 2 bytes a sample (line 629 of the
  version without subdivisions: \<^verbatim>\<open>raster.data() + r * width * sizeof(std::uint16_t)\<close>).
\<close>

definition sample_byte_index :: "int \<Rightarrow> int \<Rightarrow> int \<Rightarrow> int" where
  "sample_byte_index width row col = (row * width + col) * 2"

text \<open>
  The PNG files a run has created, by the offsets in their names: a run that ends at an
  early \<^verbatim>\<open>return 1\<close> has not reached the tile loop.
\<close>

definition files_created :: "error + run_output \<Rightarrow> (int \<times> int) list" where
  "files_created result =
     (case result of
        Inl e \<Rightarrow> []
      | Inr out \<Rightarrow> map (\<lambda>t. (tile_row_offset t, tile_col_offset t)) (out_tiles out))"

section \<open>Byte order\<close>

lemma length_swap_pairs: "length (swap_pairs xs) = length xs"
  by (induction xs rule: swap_pairs.induct) auto

lemma swap_pairs_twice: "swap_pairs (swap_pairs xs) = xs"
  by (induction xs rule: swap_pairs.induct) auto

lemma drop_two_step:
  assumes "i + 1 < length xs"
  shows "drop i xs = xs ! i # xs ! (i + 1) # drop (i + 2) xs"
proof -
  from assms have "drop i xs = xs ! i # drop (Suc i) xs"
    by (simp add: Cons_nth_drop_Suc)
  moreover from assms have "drop (Suc i) xs = xs ! (Suc i) # drop (Suc (Suc i)) xs"
    by (simp add: Cons_nth_drop_Suc)
  ultimately show ?thesis by simp
qed

lemma take_two_step:
  assumes "i + 1 < length xs"
  shows "take (i + 2) ((xs[i := a])[i + 1 := b]) = take i xs @ [a, b]"
proof -
  let ?ys = "(xs[i := a])[i + 1 := b]"
  from assms have len: "i + 1 < length ?ys" by simp
  have "take (i + 2) ?ys = take i ?ys @ [?ys ! i, ?ys ! (i + 1)]"
    using len by (simp add: take_Suc_conv_app_nth)
  moreover have "take i ?ys = take i xs" by simp
  moreover have "?ys ! i = a" using assms by simp
  moreover have "?ys ! (i + 1) = b" using assms by simp
  ultimately show ?thesis by simp
qed

text \<open>
  From an even index of a buffer of even length, the loop leaves the bytes before the
  index and exchanges the pairs after it; it never reads past the end.
\<close>

lemma swap_loop_pairs:
  "even i \<Longrightarrow> even (length raster) \<Longrightarrow> data_size = length raster \<Longrightarrow> i \<le> length raster \<Longrightarrow>
   swap_loop i data_size raster = Inr (take i raster @ swap_pairs (drop i raster))"
proof (induction i data_size raster rule: swap_loop.induct)
  case (1 i data_size raster)
  show ?case
  proof (cases "i < data_size")
    case False
    with "1.prems" show ?thesis by (simp add: swap_loop.simps)
  next
    case True
    with "1.prems" have next_in: "i + 1 < length raster"
      by (metis Suc_eq_plus1 Suc_lessI even_Suc)
    let ?r = "(raster[i := raster ! (i + 1)])[i + 1 := raster ! i]"
    have "swap_loop (i + 2) data_size ?r = Inr (take (i + 2) ?r @ swap_pairs (drop (i + 2) ?r))"
      using True next_in "1.prems" by (intro "1.IH") auto
    moreover have "take (i + 2) ?r = take i raster @ [raster ! (i + 1), raster ! i]"
      using next_in by (rule take_two_step)
    moreover have "drop (i + 2) ?r = drop (i + 2) raster" by simp
    moreover have "swap_pairs (drop i raster) =
        raster ! (i + 1) # raster ! i # swap_pairs (drop (i + 2) raster)"
      using drop_two_step [OF next_in] by simp
    ultimately show ?thesis
      using True next_in by (subst swap_loop.simps) simp
  qed
qed

lemma swap_byte_order_little:
  "even (length raster) \<Longrightarrow> swap_byte_order True raster = Inr (swap_pairs raster)"
  by (simp add: swap_byte_order_def swap_loop_pairs)

text \<open>
  C6. For every byte buffer of even length and either byte order of the host, each of
  the two byte-order passes of the program exchanges the adjacent byte pairs if and only
  if the host is little-endian, and the two passes one after the other give back exactly
  the buffer they started from (neither pass reads outside the buffer).
\<close>

theorem swap_twice_identity:
  "even (length raster) \<Longrightarrow>
   swap_byte_order is_little_endian raster
     = Inr (if is_little_endian then swap_pairs raster else raster) \<and>
   swap_twice is_little_endian raster = Inr raster"
proof (cases is_little_endian)
  case True
  assume "even (length raster)"
  then show ?thesis
    using True
    by (simp add: swap_twice_def swap_byte_order_little length_swap_pairs swap_pairs_twice)
next
  case False
  then show ?thesis
    by (simp add: swap_twice_def swap_byte_order_def)
qed

text \<open>
  On a little-endian host the buffer 12 34 AB CD becomes 34 12 CD AB after one pass and
  is itself again after two.
\<close>

theorem swap_twice_identity_witness:
  "even (length [0x12, 0x34, 0xAB, 0xCD :: byte]) \<and>
   swap_byte_order True [0x12, 0x34, 0xAB, 0xCD] = Inr [0x34, 0x12, 0xCD, 0xAB] \<and>
   swap_twice True [0x12, 0x34, 0xAB, 0xCD] = Inr [0x12, 0x34, 0xAB, 0xCD]"
  using swap_twice_identity [of "[0x12, 0x34, 0xAB, 0xCD]" True]
  by simp

section \<open>The range scan\<close>

lemmas scan_eval = range_scan_def scan_step_def initial_range_def

text \<open>
  The minimum the scan finds is at most every sample that is not the sentinel: the
  first branch of the loop is the one that a new minimum takes.
\<close>

lemma scan_step_minimum_le: "minimum (scan_step r x) \<le> minimum r"
  by (simp add: scan_step_def Let_def)

lemma scan_step_minimum_sample:
  "sint x \<noteq> - 32768 \<Longrightarrow> minimum (scan_step r x) \<le> sint x"
  by (simp add: scan_step_def Let_def)

lemma foldl_scan_minimum_le: "minimum (foldl scan_step r xs) \<le> minimum r"
proof (induction xs arbitrary: r)
  case Nil
  show ?case by simp
next
  case (Cons x xs)
  have "minimum (foldl scan_step (scan_step r x) xs) \<le> minimum (scan_step r x)"
    by (rule Cons.IH)
  also have "\<dots> \<le> minimum r" by (rule scan_step_minimum_le)
  finally show ?case by simp
qed

lemma foldl_scan_minimum_sample:
  "x \<in> set xs \<Longrightarrow> sint x \<noteq> - 32768 \<Longrightarrow> minimum (foldl scan_step r xs) \<le> sint x"
proof (induction xs arbitrary: r)
  case Nil
  then show ?case by simp
next
  case (Cons y ys)
  show ?case
  proof (cases "x = y")
    case True
    have "minimum (foldl scan_step (scan_step r y) ys) \<le> minimum (scan_step r y)"
      by (rule foldl_scan_minimum_le)
    also have "\<dots> \<le> sint x"
      using True Cons.prems(2) by (simp add: scan_step_minimum_sample)
    finally show ?thesis by simp
  next
    case False
    with Cons.prems have "x \<in> set ys" by simp
    then show ?thesis using Cons.IH Cons.prems(2) by simp
  qed
qed

lemma range_scan_minimum_sample:
  "x \<in> set samples \<Longrightarrow> sint x \<noteq> - 32768 \<Longrightarrow> minimum (range_scan samples) \<le> sint x"
  by (simp add: range_scan_def foldl_scan_minimum_sample)

text \<open>
  The bounds of the range after the scan, on which the account of the double arithmetic
  of the rescale rests, and the count of the sentinels: the sentinel is below every
  minimum the scan can hold, so the first branch counts each one.
\<close>

lemma scan_step_bounds:
  assumes "- 32767 \<le> minimum r" "minimum r \<le> 32768" "- 32768 \<le> maximum r" "maximum r \<le> 32767"
  shows "- 32767 \<le> minimum (scan_step r x) \<and> minimum (scan_step r x) \<le> 32768 \<and>
         - 32768 \<le> maximum (scan_step r x) \<and> maximum (scan_step r x) \<le> 32767"
proof -
  have "- 32768 \<le> sint x" "sint x \<le> 32767"
    using sint_ge [of x] sint_lt [of x] by simp_all
  with assms show ?thesis
    by (simp add: scan_step_def Let_def)
qed

lemma foldl_scan_bounds:
  "- 32767 \<le> minimum r \<Longrightarrow> minimum r \<le> 32768 \<Longrightarrow> - 32768 \<le> maximum r \<Longrightarrow> maximum r \<le> 32767 \<Longrightarrow>
   - 32767 \<le> minimum (foldl scan_step r xs) \<and> minimum (foldl scan_step r xs) \<le> 32768 \<and>
   - 32768 \<le> maximum (foldl scan_step r xs) \<and> maximum (foldl scan_step r xs) \<le> 32767"
proof (induction xs arbitrary: r)
  case Nil
  then show ?case by simp
next
  case (Cons x xs)
  from scan_step_bounds [OF Cons.prems, of x] show ?case
    by (simp add: Cons.IH)
qed

lemma range_scan_bounds:
  "- 32767 \<le> minimum (range_scan samples) \<and> minimum (range_scan samples) \<le> 32768 \<and>
   - 32768 \<le> maximum (range_scan samples) \<and> maximum (range_scan samples) \<le> 32767"
  unfolding range_scan_def by (rule foldl_scan_bounds) (simp_all add: initial_range_def)

lemma scan_step_invalid:
  "- 32767 \<le> minimum r \<Longrightarrow>
   invalid (scan_step r x) = invalid r + (if sint x = - 32768 then 1 else 0)"
  by (simp add: scan_step_def Let_def)

lemma foldl_scan_invalid:
  "- 32767 \<le> minimum r \<Longrightarrow> minimum r \<le> 32768 \<Longrightarrow> - 32768 \<le> maximum r \<Longrightarrow> maximum r \<le> 32767 \<Longrightarrow>
   invalid (foldl scan_step r xs) = invalid r + int (length (filter (\<lambda>x. sint x = - 32768) xs))"
proof (induction xs arbitrary: r)
  case Nil
  then show ?case by simp
next
  case (Cons x xs)
  from scan_step_bounds [OF Cons.prems, of x]
  have "invalid (foldl scan_step (scan_step r x) xs) =
      invalid (scan_step r x) + int (length (filter (\<lambda>x. sint x = - 32768) xs))"
    by (intro Cons.IH) simp_all
  then show ?case
    using Cons.prems(1) by (simp add: scan_step_invalid)
qed

lemma range_scan_invalid:
  "invalid (range_scan samples) = int (length (filter (\<lambda>x. sint x = - 32768) samples))"
  unfolding range_scan_def
  using foldl_scan_invalid [of initial_range samples] by (simp add: initial_range_def)

text \<open>
  C4. The claim: for every grid with at least one sample that is not the sentinel, the
  scan ends with \<open>maximum \<ge> minimum\<close>. The loop tests a sample against the maximum
  only when it is not below the minimum (\<^verbatim>\<open>else if\<close>), so a sample that lowers the
  minimum never raises the maximum: on the two samples 5, 3 (as on any strictly
  decreasing row, and on a single sample) the maximum is still its initial \<open>-32768\<close>
  at the end, below the minimum 3.
\<close>

theorem scan_decreasing_pair:
  "range_scan [5, 3] = \<lparr>minimum = 3, maximum = - 32768, invalid = 0\<rparr> \<and>
   \<not> minimum (range_scan [5, 3]) \<le> maximum (range_scan [5, 3])"
  by (simp add: scan_eval)

section \<open>The rescale\<close>

lemmas rescale_eval = rescale_raster_def rescale_sample_def conversion_defined_def scan_eval
  signed_divide_int_def








lemma sdiv_nonneg_pos: "0 \<le> a \<Longrightarrow> 0 < b \<Longrightarrow> a sdiv b = a div (b::int)"
  by (cases "a = 0") (simp_all add: signed_divide_int_def)

lemma sdiv_mono_pos:
  assumes "a \<le> b" and "0 < (d::int)"
  shows "a sdiv d \<le> b sdiv d"
proof -
  consider "0 \<le> a" | "a < 0" "0 \<le> b" | "a < 0" "b < 0" by linarith
  then show ?thesis
  proof cases
    case 1
    with assms show ?thesis by (simp add: sdiv_nonneg_pos zdiv_mono1)
  next
    case 2
    have "a sdiv d \<le> 0"
      using 2 assms by (simp add: signed_divide_int_def pos_imp_zdiv_nonneg_iff)
    moreover have "0 \<le> b sdiv d"
      using 2 assms by (simp add: sdiv_nonneg_pos pos_imp_zdiv_nonneg_iff)
    ultimately show ?thesis by simp
  next
    case 3
    have "a sdiv d = - ((- a) div d)" "b sdiv d = - ((- b) div d)"
      using 3 assms by (simp_all add: signed_divide_int_def)
    moreover have "(- b) div d \<le> (- a) div d"
      using assms by (intro zdiv_mono1) simp_all
    ultimately show ?thesis by simp
  qed
qed

lemma uint_word16_of_int: "0 \<le> q \<Longrightarrow> q \<le> 65535 \<Longrightarrow> uint (word_of_int q :: 16 word) = q"
  by (simp add: uint_word_of_int take_bit_int_eq_self)

lemma scaled_quotient_bounds:
  assumes "0 \<le> a" "a \<le> d" "0 < (d::int)"
  shows "0 \<le> (a * 65534) div d" "(a * 65534) div d \<le> 65534"
proof -
  show "0 \<le> (a * 65534) div d"
    using assms by (simp add: pos_imp_zdiv_nonneg_iff)
  have "(a * 65534) div d \<le> (d * 65534) div d"
    using assms by (intro zdiv_mono1) simp_all
  then show "(a * 65534) div d \<le> 65534"
    using assms by simp
qed

text \<open>
  Where the standard defines the conversion, the value stored is the quotient.
\<close>

lemma rescale_sample_defined:
  assumes "conversion_defined minf deltaf svalue" and "sint svalue \<noteq> - 32768"
  shows "deltaf \<noteq> 0"
    and "uint (rescale_sample minf deltaf svalue) = ((sint svalue - minf) * 65534) sdiv deltaf"
    and "0 \<le> ((sint svalue - minf) * 65534) sdiv deltaf"
    and "((sint svalue - minf) * 65534) sdiv deltaf \<le> 65535"
proof -
  let ?q = "((sint svalue - minf) * 65534) sdiv deltaf"
  from assms show d: "deltaf \<noteq> 0" and lo: "0 \<le> ?q" and hi: "?q \<le> 65535"
    by (simp_all add: conversion_defined_def)
  from lo hi have "- (2 ^ 31) \<le> ?q \<and> ?q < 2 ^ 31" by simp
  then have "rescale_sample minf deltaf svalue = word_of_int ?q"
    using assms(2) d unfolding rescale_sample_def Let_def by simp
  then show "uint (rescale_sample minf deltaf svalue) = ?q"
    using lo hi by (simp add: uint_word16_of_int)
qed

text \<open>
  Within a range \<open>lo < hi\<close> the conversion is defined, and its result is the quotient
  rounded down.
\<close>

lemma rescale_sample_in_range:
  assumes "sint raw \<noteq> - 32768" and "lo \<le> sint raw" and "sint raw \<le> hi" and "lo < hi"
  shows "conversion_defined lo (hi - lo) raw \<and>
         uint (rescale_sample lo (hi - lo) raw)
           = \<lfloor>real_of_int ((sint raw - lo) * 65534) / real_of_int (hi - lo)\<rfloor> \<and>
         0 \<le> uint (rescale_sample lo (hi - lo) raw) \<and>
         uint (rescale_sample lo (hi - lo) raw) \<le> 65534 \<and>
         rescale_sample lo (hi - lo) raw \<noteq> 0xFFFF"
proof -
  let ?q = "((sint raw - lo) * 65534) div (hi - lo)"
  from assms have a: "0 \<le> sint raw - lo" "sint raw - lo \<le> hi - lo" "0 < hi - lo"
    by simp_all
  have b: "0 \<le> ?q" "?q \<le> 65534"
    using a by (rule scaled_quotient_bounds)+
  from a have "0 \<le> (sint raw - lo) * 65534" by simp
  then have sd: "((sint raw - lo) * 65534) sdiv (hi - lo) = ?q"
    using a(3) by (rule sdiv_nonneg_pos)
  have def: "conversion_defined lo (hi - lo) raw"
    unfolding conversion_defined_def sd using a(3) b by simp
  have u: "uint (rescale_sample lo (hi - lo) raw) = ?q"
    using rescale_sample_defined(2) [OF def assms(1)] sd by simp
  have fl: "\<lfloor>real_of_int ((sint raw - lo) * 65534) / real_of_int (hi - lo)\<rfloor> = ?q"
    by (rule floor_divide_of_int_eq)
  have ne: "rescale_sample lo (hi - lo) raw \<noteq> 0xFFFF"
  proof
    assume "rescale_sample lo (hi - lo) raw = 0xFFFF"
    then have "uint (rescale_sample lo (hi - lo) raw) = uint (0xFFFF :: 16 word)" by simp
    with u b show False by simp
  qed
  show ?thesis
    using def u fl b ne by simp
qed

text \<open>
  The comment of lines 238 and 239: in a range \<open>lo < hi\<close> the minimum encodes to 0 and
  the maximum to 65534.
\<close>

lemma rescale_sample_endpoints:
  assumes "lo < hi"
  shows "sint raw = lo \<Longrightarrow> lo \<noteq> - 32768 \<Longrightarrow> rescale_sample lo (hi - lo) raw = 0"
    and "sint raw = hi \<Longrightarrow> hi \<noteq> - 32768 \<Longrightarrow> rescale_sample lo (hi - lo) raw = 65534"
proof -
  show "rescale_sample lo (hi - lo) raw = 0" if "sint raw = lo" "lo \<noteq> - 32768"
    using that assms by (simp add: rescale_sample_def)
  show "rescale_sample lo (hi - lo) raw = 65534"
    if at_hi: "sint raw = hi" and not_sentinel: "hi \<noteq> - 32768"
  proof -
    have "0 \<le> (hi - lo) * 65534" using assms by simp
    then have "((hi - lo) * 65534) sdiv (hi - lo) = ((hi - lo) * 65534) div (hi - lo)"
      using assms by (intro sdiv_nonneg_pos) simp_all
    also have "\<dots> = 65534"
      using assms by (intro nonzero_mult_div_cancel_left) simp
    finally have q: "((sint raw - lo) * 65534) sdiv (hi - lo) = 65534"
      unfolding at_hi .
    have delta: "hi - lo \<noteq> 0" using assms by simp
    from at_hi not_sentinel have "sint raw \<noteq> - 32768" by simp
    then show ?thesis
      unfolding rescale_sample_def Let_def q using delta by simp
  qed
qed

text \<open>
  C5, as amended. The sentinel is rescaled to \<open>0xFFFF\<close> whatever the range is. For
  every grid whose scan ends with \<open>maximum - minimum > 0\<close>, every sample of the grid
  that is not the sentinel and not above the maximum the scan has found is rescaled to
  \<open>(raw - minimum) * 65534 / (maximum - minimum)\<close> rounded down (the conversion
  truncates; it does not round to the nearest integer), a value in \<open>[0, 65534]\<close>, so
  never \<open>0xFFFF\<close>; the conversion of such a sample is one the standard defines.
\<close>

theorem rescale_within_discovered_range:
  fixes samples :: "int16 list"
  defines "r \<equiv> range_scan samples"
  shows "rescale_sample minf deltaf (- 32768) = 0xFFFF \<and>
   (raw \<in> set samples \<and> sint raw \<noteq> - 32768 \<and> 0 < maximum r - minimum r \<and>
    sint raw \<le> maximum r \<longrightarrow>
      conversion_defined (minimum r) (maximum r - minimum r) raw \<and>
      uint (rescale_sample (minimum r) (maximum r - minimum r) raw)
        = \<lfloor>real_of_int ((sint raw - minimum r) * 65534)
             / real_of_int (maximum r - minimum r)\<rfloor> \<and>
      0 \<le> uint (rescale_sample (minimum r) (maximum r - minimum r) raw) \<and>
      uint (rescale_sample (minimum r) (maximum r - minimum r) raw) \<le> 65534 \<and>
      rescale_sample (minimum r) (maximum r - minimum r) raw \<noteq> 0xFFFF)"
proof (rule conjI)
  show "rescale_sample minf deltaf (- 32768) = 0xFFFF"
    by (simp add: rescale_sample_def)
next
  show "raw \<in> set samples \<and> sint raw \<noteq> - 32768 \<and> 0 < maximum r - minimum r \<and>
    sint raw \<le> maximum r \<longrightarrow>
      conversion_defined (minimum r) (maximum r - minimum r) raw \<and>
      uint (rescale_sample (minimum r) (maximum r - minimum r) raw)
        = \<lfloor>real_of_int ((sint raw - minimum r) * 65534)
             / real_of_int (maximum r - minimum r)\<rfloor> \<and>
      0 \<le> uint (rescale_sample (minimum r) (maximum r - minimum r) raw) \<and>
      uint (rescale_sample (minimum r) (maximum r - minimum r) raw) \<le> 65534 \<and>
      rescale_sample (minimum r) (maximum r - minimum r) raw \<noteq> 0xFFFF"
  proof (rule impI)
    assume h: "raw \<in> set samples \<and> sint raw \<noteq> - 32768 \<and> 0 < maximum r - minimum r \<and>
      sint raw \<le> maximum r"
    then have "minimum r \<le> sint raw"
      unfolding r_def by (simp add: range_scan_minimum_sample)
    with h show "conversion_defined (minimum r) (maximum r - minimum r) raw \<and>
      uint (rescale_sample (minimum r) (maximum r - minimum r) raw)
        = \<lfloor>real_of_int ((sint raw - minimum r) * 65534)
             / real_of_int (maximum r - minimum r)\<rfloor> \<and>
      0 \<le> uint (rescale_sample (minimum r) (maximum r - minimum r) raw) \<and>
      uint (rescale_sample (minimum r) (maximum r - minimum r) raw) \<le> 65534 \<and>
      rescale_sample (minimum r) (maximum r - minimum r) raw \<noteq> 0xFFFF"
      by (intro rescale_sample_in_range) simp_all
  qed
qed

text \<open>
  On the grid 0, 3, 1 the range is \<open>[0, 3]\<close> and the sample 1 is rescaled to 21844, the
  quotient \<open>65534 / 3 = 21844.67\<close> rounded down.
\<close>

theorem rescale_within_discovered_range_witness:
  "(1 :: int16) \<in> set [0, 3, 1] \<and> sint (1 :: int16) \<noteq> - 32768 \<and>
   range_scan [0, 3, 1] = \<lparr>minimum = 0, maximum = 3, invalid = 0\<rparr> \<and>
   conversion_defined 0 (3 - 0) 1 \<and>
   rescale_sample 0 (3 - 0) 1 = 21844 \<and>
   \<lfloor>real_of_int ((1 - 0) * 65534) / real_of_int (3 - 0)\<rfloor> = 21844"
  using rescale_within_discovered_range [of 0 3 1 "[0, 3, 1]"]
  by (simp add: rescale_eval)

text \<open>
  C5 as it is stated fails on the grid 20001, -20000, 20000, -19999. The scan ends with
  the range \<open>[-20000, 20000]\<close> (the first sample lowers the minimum and is never
  tested against the maximum). The sample 20001, which is not the sentinel, is rescaled
  to \<open>0xFFFF\<close>; the sample -19999 is rescaled to 1, where the quotient \<open>1.64\<close> rounded
  to the nearest integer is 2.
\<close>

theorem rescale_claim_counterexample:
  "range_scan [20001, - 20000, 20000, - 19999]
     = \<lparr>minimum = - 20000, maximum = 20000, invalid = 0\<rparr> \<and>
   rescale_raster [20001, - 20000, 20000, - 19999] = [0xFFFF, 0, 65534, 1] \<and>
   spec_rescaled (- 20000) 20000 (- 19999) = 2"
  by (simp add: rescale_eval spec_rescaled_def round_def)

text \<open>
  C8, as amended. For a range with \<open>minimum < maximum\<close>, the rescale does not decrease
  on the samples other than the sentinel: for \<open>raw1 \<le> raw2\<close>, \<open>raw1\<close> not the sentinel,
  whenever both conversions are defined (as they are for the samples within the range),
  the rescaled \<open>raw1\<close> is at most the rescaled \<open>raw2\<close>.
\<close>

theorem rescale_sample_monotone:
  assumes "lo < hi" and "sint raw1 \<noteq> - 32768" and "sint raw1 \<le> sint raw2"
    and "conversion_defined lo (hi - lo) raw1"
    and "conversion_defined lo (hi - lo) raw2"
  shows "rescale_sample lo (hi - lo) raw1 \<le> rescale_sample lo (hi - lo) raw2"
proof -
  let ?q1 = "((sint raw1 - lo) * 65534) sdiv (hi - lo)"
  let ?q2 = "((sint raw2 - lo) * 65534) sdiv (hi - lo)"
  have "- 32768 \<le> sint raw1"
    using sint_ge [of raw1] by simp
  with assms(2,3) have ns2: "sint raw2 \<noteq> - 32768" by linarith
  have u1: "uint (rescale_sample lo (hi - lo) raw1) = ?q1"
    using assms(4,2) by (rule rescale_sample_defined(2))
  have u2: "uint (rescale_sample lo (hi - lo) raw2) = ?q2"
    using assms(5) ns2 by (rule rescale_sample_defined(2))
  have "?q1 \<le> ?q2"
    using assms(1,3) by (intro sdiv_mono_pos) simp_all
  then show ?thesis
    by (simp add: word_le_def u1 u2)
qed

text \<open>In the range \<open>[0, 10]\<close> the samples 2 and 7 are rescaled to 13106 and 45873.\<close>

theorem rescale_sample_monotone_witness:
  "(0 :: int) < 10 \<and> sint (2 :: int16) \<noteq> - 32768 \<and> sint (2 :: int16) \<le> sint (7 :: int16) \<and>
   conversion_defined 0 (10 - 0) 2 \<and> conversion_defined 0 (10 - 0) 7 \<and>
   rescale_sample 0 (10 - 0) 2 = 13106 \<and> rescale_sample 0 (10 - 0) 7 = 45873 \<and>
   rescale_sample 0 (10 - 0) 2 \<le> rescale_sample 0 (10 - 0) 7"
proof -
  have d1: "conversion_defined 0 (10 - 0) 2" and d2: "conversion_defined 0 (10 - 0) 7"
    by (simp_all add: rescale_eval)
  have r1: "rescale_sample 0 (10 - 0) 2 = 13106" and r2: "rescale_sample 0 (10 - 0) 7 = 45873"
    by (simp_all add: rescale_eval)
  have "rescale_sample 0 (10 - 0) 2 \<le> rescale_sample 0 (10 - 0) 7"
    by (rule rescale_sample_monotone [OF _ _ _ d1 d2]) simp_all
  with d1 d2 r1 r2 show ?thesis by simp
qed

text \<open>
  C8 as it is stated fails at the sentinel, the least sample there is: it is rescaled to
  \<open>0xFFFF = 65535\<close>, the greatest value, and the sample 0 of the range \<open>[0, 10]\<close>
  to 0.
\<close>

theorem rescale_monotone_counterexample:
  "sint (- 32768 :: int16) \<le> sint (0 :: int16) \<and>
   rescale_sample 0 (10 - 0) (- 32768) = 65535 \<and>
   rescale_sample 0 (10 - 0) 0 = 0 \<and>
   \<not> rescale_sample 0 (10 - 0) (- 32768) \<le> rescale_sample 0 (10 - 0) 0"
  by (simp add: rescale_eval)

section \<open>The tile loop\<close>

lemmas tile_eval = tile_offsets_def tile_loop_def row_loop.simps col_loop.simps
  png_rows_loop.simps row_pointer_def subwidth_def subheight_def verify_subdivisions_def
  signed_divide_int_def signed_modulo_int_def

text \<open>
  The offsets of the tiles the loops emit, in general: \<open>nat rows * nat cols\<close> pairs in
  row-major order, the row offsets \<^verbatim>\<open>subwidth - 1\<close> apart and the column offsets
  \<^verbatim>\<open>subheight - 1\<close> apart.
\<close>

lemma upt_nat_step:
  assumes "i < (n::int)"
  shows "[0..<nat (n - i)] = 0 # map Suc [0..<nat (n - (i + 1))]"
proof -
  from assms have "nat (n - i) = Suc (nat (n - (i + 1)))" by simp
  then show ?thesis
    by (simp only: upt_conv_Cons zero_less_Suc map_Suc_upt)
qed

lemma col_loop_offsets:
  "map (\<lambda>t. (tile_row_offset t, tile_col_offset t))
       (col_loop width sub_height cols row_offset col_index col_offset) =
   map (\<lambda>k. (row_offset, col_offset + int k * (sub_height - 1))) [0..<nat (cols - col_index)]"
proof (induction width sub_height cols row_offset col_index col_offset rule: col_loop.induct)
  case (1 width sub_height cols row_offset col_index col_offset)
  show ?case
  proof (cases "col_index < cols")
    case False
    then show ?thesis by (simp add: col_loop.simps)
  next
    case True
    let ?offs = "map (\<lambda>t. (tile_row_offset t, tile_col_offset t))"
    have "?offs (col_loop width sub_height cols row_offset col_index col_offset) =
        (row_offset, col_offset)
          # ?offs (col_loop width sub_height cols row_offset (col_index + 1)
                     (col_offset + (sub_height - 1)))"
      using True by (subst col_loop.simps) simp
    also have "?offs (col_loop width sub_height cols row_offset (col_index + 1)
                     (col_offset + (sub_height - 1))) =
        map (\<lambda>k. (row_offset, col_offset + (sub_height - 1) + int k * (sub_height - 1)))
          [0..<nat (cols - (col_index + 1))]"
      by (rule "1.IH" [OF True])
    also have "\<dots> = map ((\<lambda>k. (row_offset, col_offset + int k * (sub_height - 1))) \<circ> Suc)
          [0..<nat (cols - (col_index + 1))]"
      by (simp add: algebra_simps)
    finally show ?thesis
      by (simp add: upt_nat_step [OF True] del: upt_Suc)
  qed
qed

lemma row_loop_offsets:
  "map (\<lambda>t. (tile_row_offset t, tile_col_offset t))
       (row_loop width sub_width sub_height rows cols row_index row_offset) =
   concat (map (\<lambda>i. map (\<lambda>j. (row_offset + int i * (sub_width - 1), int j * (sub_height - 1)))
                        [0..<nat cols])
               [0..<nat (rows - row_index)])"
proof (induction width sub_width sub_height rows cols row_index row_offset rule: row_loop.induct)
  case (1 width sub_width sub_height rows cols row_index row_offset)
  show ?case
  proof (cases "row_index < rows")
    case False
    then show ?thesis by (simp add: row_loop.simps)
  next
    case True
    let ?offs = "map (\<lambda>t. (tile_row_offset t, tile_col_offset t))"
    let ?row = "\<lambda>ro i. map (\<lambda>j. (ro + int i * (sub_width - 1), int j * (sub_height - 1)))
                        [0..<nat cols]"
    have "?offs (row_loop width sub_width sub_height rows cols row_index row_offset) =
        ?offs (col_loop width sub_height cols row_offset 0 0)
          @ ?offs (row_loop width sub_width sub_height rows cols (row_index + 1)
                     (row_offset + (sub_width - 1)))"
      using True by (subst row_loop.simps) simp
    also have "?offs (col_loop width sub_height cols row_offset 0 0) = ?row row_offset 0"
      by (simp add: col_loop_offsets)
    also have "?offs (row_loop width sub_width sub_height rows cols (row_index + 1)
                     (row_offset + (sub_width - 1))) =
        concat (map (?row (row_offset + (sub_width - 1))) [0..<nat (rows - (row_index + 1))])"
      by (rule "1.IH" [OF True])
    also have "\<dots> = concat (map (?row row_offset \<circ> Suc) [0..<nat (rows - (row_index + 1))])"
      by (simp add: comp_def algebra_simps)
    finally show ?thesis
      by (simp add: upt_nat_step [OF True] del: upt_Suc)
  qed
qed

lemma tile_offsets_formula:
  "tile_offsets width height rows cols =
   concat (map (\<lambda>i. map (\<lambda>j. (int i * (subwidth width cols - 1),
                                int j * (subheight height rows - 1)))
                        [0..<nat cols])
               [0..<nat rows])"
  by (simp add: tile_offsets_def tile_loop_def row_loop_offsets)

lemma length_tile_offsets:
  "length (tile_offsets width height rows cols) = nat rows * nat cols"
  by (simp add: tile_offsets_formula length_concat o_def sum_list_triv)

text \<open>
  The row pointers: the byte index a pointer addresses is that of the sample one column
  to the left of \<^verbatim>\<open>col_offset\<close>, and the pointer of row 0 at column offset 0 is 2 bytes
  before the buffer whatever the width.
\<close>

lemma row_pointer_first: "row_pointer width 0 0 = - 2"
  by (simp add: row_pointer_def)

lemma sint_word64_of_int:
  "- (2 ^ 63) \<le> k \<Longrightarrow> k < 2 ^ 63 \<Longrightarrow> sint (word_of_int k :: 64 word) = k"
  by (simp add: sint_sbintrunc' signed_take_bit_int_eq_self)

lemma sint_row_pointer:
  assumes "- (2 ^ 62) \<le> row_abs * width + (col_offset - 1)"
    and "row_abs * width + (col_offset - 1) < 2 ^ 62"
  shows "sint (row_pointer width row_abs col_offset) = (row_abs * width + (col_offset - 1)) * 2"
proof -
  define k where "k = (row_abs * width + (col_offset - 1)) * 2"
  have "row_pointer width row_abs col_offset = word_of_int k"
    by (simp add: row_pointer_def k_def algebra_simps)
  moreover have "- (2 ^ 63) \<le> k" "k < 2 ^ 63"
    using assms by (simp_all add: k_def)
  ultimately show ?thesis
    using sint_word64_of_int [of k] by (simp add: k_def)
qed

text \<open>
  C2. The claim: the tile loop gives \<open>rows * cols\<close> offset pairs in row-major order,
  the column offsets \<open>subwidth - 1\<close> apart and the row offsets \<open>subheight - 1\<close> apart.
  Line 368 advances \<^verbatim>\<open>col_offset\<close> by \<^verbatim>\<open>subheight - 1\<close> and line 371 advances
  \<^verbatim>\<open>row_offset\<close> by \<^verbatim>\<open>subwidth - 1\<close>: the two steps are exchanged. On a grid 5 wide
  and 9 high cut in 2 rows and 2 columns (tiles 3 wide and 5 high) the column offsets
  are 0 and 4, the row offsets 0 and 2, where the claim has 0 and 2, and 0 and 4.
\<close>

theorem tile_offsets_steps_exchanged:
  "verify_subdivisions 5 9 2 2 = None \<and>
   subwidth 5 2 - 1 = 2 \<and> subheight 9 2 - 1 = 4 \<and>
   tile_offsets 5 9 2 2 = [(0, 0), (0, 4), (2, 0), (2, 4)]"
  by (simp add: tile_eval)

text \<open>
  C3. The claim: pixel \<open>(r, c)\<close> of a tile is the sample of the grid at row
  \<open>row_offset + r\<close> and column \<open>col_offset + c\<close>. Line 330 adds
  \<^verbatim>\<open>(col_offset - 1) * sizeof(std::uint16_t)\<close>, so every row pointer stands one sample
  to the left. In the single tile of a 3 by 3 grid the row pointers are at bytes -2, 4
  and 10: pixel \<open>(1, 0)\<close> is read at byte 4, the sample of row 0 and column 2, where the
  sample of row 1 and column 0 is at byte 6.
\<close>

theorem tile_pixel_one_column_left:
  "tile_loop 3 3 1 1 = [Tile 0 0 [- 2, 4, 10]] \<and>
   pixel_byte_index (Tile 0 0 [- 2, 4, 10]) 1 0 = 4 \<and>
   sample_byte_index 3 (0 + 1) (0 + 0) = 6 \<and>
   sample_byte_index 3 0 2 = 4"
  by (simp add: tile_eval pixel_byte_index_def sample_byte_index_def)

text \<open>
  C10. The claim: every row pointer of every tile addresses a byte index that is at
  least 0 and, with the bytes of its row, lies in the buffer. With the \<^verbatim>\<open>col_offset - 1\<close>
  of line 330 the pointer of row 0 of the first tile of every run is 2 bytes before
  \<^verbatim>\<open>raster.data()\<close>: the displacement is \<open>2^64 - 2\<close>, the byte index \<open>-2\<close>.
\<close>

theorem first_row_pointer_before_buffer:
  "verify_subdivisions 3 3 1 1 = None \<and>
   map tile_png_rows (tile_loop 3 3 1 1) = [[row_pointer 3 0 0, row_pointer 3 1 0, row_pointer 3 2 0]] \<and>
   sint (row_pointer 3 0 0) = - 2 \<and> uint (row_pointer 3 0 0) = 2 ^ 64 - 2"
  by (simp add: tile_eval)

section \<open>The checks of main\<close>

text \<open>Once the file is open, an error of the subdivisions ends the run.\<close>

lemma main_subdivision_error:
  "verify_subdivisions width height rows cols = Some e \<Longrightarrow>
   main is_little_endian path (Some hgt) width height rows cols = Inl e"
  by (simp add: main_def)

text \<open>
  C7, as amended. Once the source file is open: a request with \<open>rows < 1\<close> or
  \<open>cols < 1\<close> is rejected with the one message of line 135, which names neither a
  dimension nor a divisor; otherwise \<open>cols > 1\<close> with \<open>(width - 1) % cols \<noteq> 0\<close> is
  rejected with the width and \<open>cols\<close> in the message; otherwise \<open>rows > 1\<close> with
  \<open>(height - 1) % rows \<noteq> 0\<close> is rejected with the height and \<open>rows\<close> in the message;
  no output file is created in any of these runs. In particular a width of 5 with 3
  columns, and at least 1 row, is rejected with the width 5 and the divisor 3.
\<close>

theorem subdivisions_rejected:
  fixes is_little_endian :: bool and path :: string and hgt :: "byte list"
    and width height rows cols :: int
  defines "run \<equiv> main is_little_endian path (Some hgt) width height rows cols"
  shows
   "(rows < 1 \<or> cols < 1 \<longrightarrow> run = Inl SubdivisionBelowOne \<and> files_created run = []) \<and>
    (1 \<le> rows \<and> 1 < cols \<and> (width - 1) smod cols \<noteq> 0 \<longrightarrow>
       run = Inl (WidthNotDivisible width cols) \<and> files_created run = []) \<and>
    (1 < rows \<and> 1 \<le> cols \<and> \<not> (1 < cols \<and> (width - 1) smod cols \<noteq> 0) \<and>
     (height - 1) smod rows \<noteq> 0 \<longrightarrow>
       run = Inl (HeightNotDivisible height rows) \<and> files_created run = []) \<and>
    (1 \<le> rows \<longrightarrow>
       main is_little_endian path (Some hgt) 5 height rows 3 = Inl (WidthNotDivisible 5 3))"
proof (intro conjI impI)
  assume "rows < 1 \<or> cols < 1"
  then have "verify_subdivisions width height rows cols = Some SubdivisionBelowOne"
    by (auto simp add: verify_subdivisions_def)
  then show "run = Inl SubdivisionBelowOne" "files_created run = []"
    unfolding run_def by (simp_all add: main_subdivision_error files_created_def)
next
  assume "1 \<le> rows \<and> 1 < cols \<and> (width - 1) smod cols \<noteq> 0"
  then have "verify_subdivisions width height rows cols = Some (WidthNotDivisible width cols)"
    by (simp add: verify_subdivisions_def)
  then show "run = Inl (WidthNotDivisible width cols)" "files_created run = []"
    unfolding run_def by (simp_all add: main_subdivision_error files_created_def)
next
  assume "1 < rows \<and> 1 \<le> cols \<and> \<not> (1 < cols \<and> (width - 1) smod cols \<noteq> 0) \<and>
     (height - 1) smod rows \<noteq> 0"
  then have "verify_subdivisions width height rows cols = Some (HeightNotDivisible height rows)"
    by (auto simp add: verify_subdivisions_def)
  then show "run = Inl (HeightNotDivisible height rows)" "files_created run = []"
    unfolding run_def by (simp_all add: main_subdivision_error files_created_def)
next
  assume "1 \<le> rows"
  then have "verify_subdivisions 5 height rows 3 = Some (WidthNotDivisible 5 3)"
    by (simp add: verify_subdivisions_def signed_modulo_int_def)
  then show "main is_little_endian path (Some hgt) 5 height rows 3 = Inl (WidthNotDivisible 5 3)"
    by (rule main_subdivision_error)
qed


text \<open>
  Three runs, one for each message: 0 rows; a width of 5 in 3 columns; a height of 6 in
  2 rows.
\<close>

theorem subdivisions_rejected_witness:
  "main True ''N36W113.hgt'' (Some []) 5 5 0 1 = Inl SubdivisionBelowOne \<and>
   files_created (main True ''N36W113.hgt'' (Some []) 5 5 0 1) = [] \<and>
   main True ''N36W113.hgt'' (Some []) 5 5 1 3 = Inl (WidthNotDivisible 5 3) \<and>
   files_created (main True ''N36W113.hgt'' (Some []) 5 5 1 3) = [] \<and>
   main True ''N36W113.hgt'' (Some []) 5 6 2 1 = Inl (HeightNotDivisible 6 2) \<and>
   files_created (main True ''N36W113.hgt'' (Some []) 5 6 2 1) = []"
  using
    subdivisions_rejected [where rows = 0 and cols = 1 and width = 5 and height = 5
      and is_little_endian = True and path = "''N36W113.hgt''" and hgt = "[]"]
    subdivisions_rejected [where rows = 1 and cols = 3 and width = 5 and height = 5
      and is_little_endian = True and path = "''N36W113.hgt''" and hgt = "[]"]
    subdivisions_rejected [where rows = 2 and cols = 1 and width = 5 and height = 6
      and is_little_endian = True and path = "''N36W113.hgt''" and hgt = "[]"]
  by (simp add: signed_modulo_int_def files_created_def)

text \<open>
  C7 as it is stated fails for a width of 5 with 3 columns and 0 rows: the run ends
  with the message of line 135, "Both row and column must be greater than or equal to
  1", which does not name the width and the divisor 3, nor which of the two counts is
  below 1.
\<close>

theorem subdivisions_generic_error_counterexample:
  "main True ''N36W113.hgt'' (Some []) 5 5 0 3 = Inl SubdivisionBelowOne \<and>
   SubdivisionBelowOne \<noteq> WidthNotDivisible 5 3"
  by (simp add: main_def verify_subdivisions_def)

section \<open>The file name\<close>

lemmas name_eval = sscanf_name_def scan_int_def isspace_def isdigit_def file_name_of_def
  valid_hemi0_def valid_hemi1_def







section \<open>A whole run\<close>

text \<open>
  A 2 by 2 raster with the samples 5, 9, the sentinel and 7, under a name whose longitude
  cannot be read: \<^verbatim>\<open>ll[1]\<close> keeps its initial \<open>-1\<close> and the run goes on. The range is
  \<open>[5, 9]\<close> with 1 sample missing, the samples are rescaled to 0, 65534, \<open>0xFFFF\<close> and
  32767 and stored big-endian, and the one tile has its row pointers at bytes -2 and 2.
\<close>

lemma unparsed_longitude_placeholder:
  "main True ''data/N36Wxyz.hgt'' (Some [0, 5, 0, 9, 0x80, 0, 0, 7]) 2 2 1 1 =
     Inr \<lparr>out_bounds = \<lparr>hemi0 = CHR ''N'', ll0 = 36, hemi1 = CHR ''W'', ll1 = - 1\<rparr>,
          out_range = \<lparr>minimum = 5, maximum = 9, invalid = 1\<rparr>,
          out_raster = [0, 0, 0xFF, 0xFE, 0xFF, 0xFF, 0x7F, 0xFF],
          out_tiles = [Tile 0 0 [- 2, 2]]\<rparr>"
  by (simp add: main_def convert_def name_eval verify_subdivisions_def swap_byte_order_def
      swap_loop.simps word_cat_eq rescale_eval tile_eval)

end
